theory Spec2Isabelle
  imports Main
begin

section \<open>Character states of \<^verbatim>\<open>pynexml/characters.py\<close>\<close>

subsection \<open>Data model\<close>

text \<open>
  Attribute values. The attributes \<^verbatim>\<open>elem_id\<close>, \<^verbatim>\<open>label\<close>, \<^verbatim>\<open>symbol\<close> and \<^verbatim>\<open>token\<close>
  of a state default to \<^verbatim>\<open>None\<close> and otherwise hold a string, so each is a
  \<open>string option\<close>, with \<open>None\<close> for Python's \<^verbatim>\<open>None\<close>.
\<close>

type_synonym attr_value = "string option"

text \<open>The multistate enumeration of lines 59 to 61.\<close>

datatype multistate_kind = SINGLE_STATE | AMBIGUOUS_STATE | POLYMORPHIC_STATE

text \<open>
  \<^verbatim>\<open>class DiscreteStateAlphabetElement\<close> (lines 51 to 121). The constructor stores its
  arguments unchanged; \<^verbatim>\<open>elem_id\<close> and \<^verbatim>\<open>label\<close> are stored by \<^verbatim>\<open>base.IdTagged\<close>.
  \<^verbatim>\<open>member_states\<close> is \<open>None\<close> when absent and \<open>Some ms\<close> for a list of states, which
  may be empty.

  A value of this datatype is a finite tree: a state holds its member states, they hold
  theirs. This is the acyclic member-state graph that the specification requires of every
  alphabet; a state that is (transitively) a member of itself, on which the recursion of
  \<^verbatim>\<open>_get_fundamental_states\<close> does not return, is not a value of the type. Two states are
  the same object when they are the same value; within an alphabet the identifiers are
  unique, so distinct objects are distinct values.
\<close>

datatype DiscreteStateAlphabetElement =
  Element
    (elem_id: attr_value)
    (label: attr_value)
    (symbol: attr_value)
    (token: attr_value)
    (multistate: multistate_kind)
    (member_states: "DiscreteStateAlphabetElement list option")

subsection \<open>Fundamental states\<close>

text \<open>
  \<^verbatim>\<open>_get_fundamental_states\<close> (lines 84 to 95): \<^verbatim>\<open>set([self])\<close> when \<^verbatim>\<open>member_states is None\<close>,
  otherwise the loop that starts from the empty set and updates it with the fundamental
  states of each member in turn.
\<close>

fun fundamental_states :: "DiscreteStateAlphabetElement \<Rightarrow> DiscreteStateAlphabetElement set" where
  "fundamental_states (Element i l sy t m None) = {Element i l sy t m None}"
| "fundamental_states (Element i l sy t m (Some ms)) =
     fold (\<lambda>state states. states \<union> fundamental_states state) ms {}"

text \<open>
  Python's truth value of an attribute, as tested by \<^verbatim>\<open>if state.symbol\<close>: \<^verbatim>\<open>None\<close> and the
  empty string are false.
\<close>

fun truthy :: "attr_value \<Rightarrow> bool" where
  "truthy None = False"
| "truthy (Some v) = (v \<noteq> [])"

text \<open>
  \<^verbatim>\<open>_get_fundamental_ids\<close> (line 103), \<^verbatim>\<open>_get_fundamental_symbols\<close> (line 111) and
  \<^verbatim>\<open>_get_fundamental_tokens\<close> (line 119): the set built from a comprehension over the
  fundamental states; the last two keep only the states whose attribute is true.
\<close>

definition fundamental_ids :: "DiscreteStateAlphabetElement \<Rightarrow> attr_value set" where
  "fundamental_ids s = elem_id ` fundamental_states s"

definition fundamental_symbols :: "DiscreteStateAlphabetElement \<Rightarrow> attr_value set" where
  "fundamental_symbols s =
     symbol ` Set.filter (\<lambda>state. truthy (symbol state)) (fundamental_states s)"

definition fundamental_tokens :: "DiscreteStateAlphabetElement \<Rightarrow> attr_value set" where
  "fundamental_tokens s =
     token ` Set.filter (\<lambda>state. truthy (token state)) (fundamental_states s)"

subsection \<open>Errors\<close>

text \<open>
  The exceptions of the module, by the names the specification gives them:
  \<^item> \<open>NotFound\<close>: \<^verbatim>\<open>Exception("State with %s value of '%s' not defined")\<close>, line 152;
  \<^item> \<open>InvalidArgument\<close>: \<^verbatim>\<open>Exception("Must specify ids, symbols or tokens")\<close>, lines 170
    and 190;
  \<^item> \<open>DuplicateKey\<close>: raised by the insertion that the specification describes;
  \<^item> \<open>KeyError\<close>: Python's error for a key that a \<^verbatim>\<open>dict\<close> does not hold.
\<close>

datatype error = NotFound | InvalidArgument | DuplicateKey | KeyError

subsection \<open>Alphabets\<close>

text \<open>
  \<^verbatim>\<open>class DiscreteStateAlphabetSet(base.IdTagged, set)\<close> (lines 123 to 199). The object is
  a Python set of states together with an identifier and a label. The methods only ever
  iterate over it (\<^verbatim>\<open>for state in self\<close>), so the set is modelled by the list of its
  elements in iteration order.
\<close>

record DiscreteStateAlphabetSet =
  alphabet_elem_id :: attr_value
  alphabet_label :: attr_value
  elements :: "DiscreteStateAlphabetElement list"

definition DiscreteStateAlphabetSet_init :: "attr_value \<Rightarrow> attr_value \<Rightarrow> DiscreteStateAlphabetSet" where
  "DiscreteStateAlphabetSet_init eid lbl =
     \<lparr>alphabet_elem_id = eid, alphabet_label = lbl, elements = []\<rparr>"

text \<open>The attribute names that \<^verbatim>\<open>get_states\<close> hands to \<^verbatim>\<open>get_state\<close> (lines 161, 164, 167).\<close>

datatype attr_name = ATTR_elem_id | ATTR_symbol | ATTR_token

fun getattr :: "DiscreteStateAlphabetElement \<Rightarrow> attr_name \<Rightarrow> attr_value" where
  "getattr state ATTR_elem_id = elem_id state"
| "getattr state ATTR_symbol = symbol state"
| "getattr state ATTR_token = token state"

text \<open>
  \<^verbatim>\<open>get_state\<close> (lines 132 to 152): the first state of the iteration whose attribute equals
  the value; the exception when the loop ends without one.
\<close>

fun get_state_loop ::
  "DiscreteStateAlphabetElement list \<Rightarrow> attr_name \<Rightarrow> attr_value \<Rightarrow> error + DiscreteStateAlphabetElement" where
  "get_state_loop [] attr val = Inl NotFound"
| "get_state_loop (state # rest) attr val =
     (if getattr state attr = val then Inr state else get_state_loop rest attr val)"

definition get_state ::
  "DiscreteStateAlphabetSet \<Rightarrow> attr_name \<Rightarrow> attr_value \<Rightarrow> error + DiscreteStateAlphabetElement" where
  "get_state self attr val = get_state_loop (elements self) attr val"

text \<open>
  \<^verbatim>\<open>get_states\<close> (lines 154 to 174). The three keyword arguments default to \<^verbatim>\<open>None\<close>; the
  \<^verbatim>\<open>if\<close>/\<^verbatim>\<open>elif\<close> chain takes the first that is given. The loop appends the result of
  \<^verbatim>\<open>get_state\<close> for each value to a list; an exception of \<^verbatim>\<open>get_state\<close> leaves the loop
  and the function.
\<close>

fun get_states_loop ::
  "DiscreteStateAlphabetSet \<Rightarrow> attr_name \<Rightarrow> attr_value list \<Rightarrow> DiscreteStateAlphabetElement list
     \<Rightarrow> error + DiscreteStateAlphabetElement list" where
  "get_states_loop self attr [] states = Inr states"
| "get_states_loop self attr (val # vals) states =
     (case get_state self attr val of
        Inl e \<Rightarrow> Inl e
      | Inr state \<Rightarrow> get_states_loop self attr vals (states @ [state]))"

definition get_states ::
  "DiscreteStateAlphabetSet \<Rightarrow> attr_value list option \<Rightarrow> attr_value list option \<Rightarrow> attr_value list option
     \<Rightarrow> error + DiscreteStateAlphabetElement list" where
  "get_states self elem_ids symbols tokens =
     (case elem_ids of
        Some vals \<Rightarrow> get_states_loop self ATTR_elem_id vals []
      | None \<Rightarrow>
     (case symbols of
        Some vals \<Rightarrow> get_states_loop self ATTR_symbol vals []
      | None \<Rightarrow>
     (case tokens of
        Some vals \<Rightarrow> get_states_loop self ATTR_token vals []
      | None \<Rightarrow> Inl InvalidArgument)))"

text \<open>
  The values that \<^verbatim>\<open>match_state\<close> receives: a list, a string, a set, or a value of
  another type, for which the model has the tuple.
\<close>

datatype selector_values =
  ValList "attr_value list"
| ValStr string
| ValSet "attr_value set"
| ValTuple "attr_value list"

text \<open>
  Lines 191 to 194 turn a list into the set of its elements and a string into the set of
  its characters; they have no \<^verbatim>\<open>else\<close>, so every other value stays as it is. The loop
  therefore compares with a set or with a tuple.
\<close>

datatype compared_value =
  SetValue "attr_value set"
| TupleValue "attr_value list"

fun converted :: "selector_values \<Rightarrow> compared_value" where
  "converted (ValList vals) = SetValue (set vals)"
| "converted (ValStr str) = SetValue (set (map (\<lambda>ch. Some [ch]) str))"
| "converted (ValSet vals) = SetValue vals"
| "converted (ValTuple vals) = TupleValue vals"

text \<open>
  The comparison \<^verbatim>\<open>==\<close> of line 197 between the set that the property returns and the
  value: two sets are equal when they have the same elements, a set and a tuple never are.
\<close>

fun set_equals :: "attr_value set \<Rightarrow> compared_value \<Rightarrow> bool" where
  "set_equals A (SetValue B) = (A = B)"
| "set_equals A (TupleValue vals) = False"

text \<open>The attribute names of \<^verbatim>\<open>match_state\<close> (lines 181, 184, 187), which name the three properties.\<close>

datatype fundamental_attr_name = ATTR_fundamental_ids | ATTR_fundamental_symbols | ATTR_fundamental_tokens

fun getattr_fundamental :: "DiscreteStateAlphabetElement \<Rightarrow> fundamental_attr_name \<Rightarrow> attr_value set" where
  "getattr_fundamental state ATTR_fundamental_ids = fundamental_ids state"
| "getattr_fundamental state ATTR_fundamental_symbols = fundamental_symbols state"
| "getattr_fundamental state ATTR_fundamental_tokens = fundamental_tokens state"

text \<open>
  \<^verbatim>\<open>match_state\<close> (lines 176 to 199): the first state of the iteration whose property equals
  the converted value, \<^verbatim>\<open>None\<close> when the loop ends without one.
\<close>

fun match_state_loop ::
  "DiscreteStateAlphabetElement list \<Rightarrow> fundamental_attr_name \<Rightarrow> compared_value
     \<Rightarrow> DiscreteStateAlphabetElement option" where
  "match_state_loop [] attr vals = None"
| "match_state_loop (state # rest) attr vals =
     (if set_equals (getattr_fundamental state attr) vals then Some state
      else match_state_loop rest attr vals)"

definition match_state ::
  "DiscreteStateAlphabetSet \<Rightarrow> selector_values option \<Rightarrow> selector_values option \<Rightarrow> selector_values option
     \<Rightarrow> error + DiscreteStateAlphabetElement option" where
  "match_state self elem_ids symbols tokens =
     (case elem_ids of
        Some vals \<Rightarrow> Inr (match_state_loop (elements self) ATTR_fundamental_ids (converted vals))
      | None \<Rightarrow>
     (case symbols of
        Some vals \<Rightarrow> Inr (match_state_loop (elements self) ATTR_fundamental_symbols (converted vals))
      | None \<Rightarrow>
     (case tokens of
        Some vals \<Rightarrow> Inr (match_state_loop (elements self) ATTR_fundamental_tokens (converted vals))
      | None \<Rightarrow> Inl InvalidArgument)))"

subsection \<open>Insertion\<close>

text \<open>
  Modelled from the spec: the method \<^verbatim>\<open>append\<close> that \<^verbatim>\<open>DnaStateAlphabetSet.__init__\<close>
  calls on the alphabet is not defined in \<^verbatim>\<open>characters.py\<close> (Python's \<^verbatim>\<open>set\<close> has none; the
  base class \<^verbatim>\<open>base.IdTagged\<close> is not among the sources). The specification describes the
  insertion as \<^verbatim>\<open>add(state)\<close>: it inserts a state and fails with a DuplicateKey error if a
  state with the same identifier already exists, the prior contents being unchanged after
  the failure. The method mutates the alphabet, so the model returns the outcome together
  with the alphabet after the call. The new state is put last in the iteration order; a
  Python set fixes no order, and the theorems on the DNA alphabet below that depend on
  the order are proved for every order of its states.
\<close>

definition append ::
  "DiscreteStateAlphabetSet \<Rightarrow> DiscreteStateAlphabetElement \<Rightarrow> (error + unit) \<times> DiscreteStateAlphabetSet" where
  "append self state =
     (if elem_id state \<in> elem_id ` set (elements self)
      then (Inl DuplicateKey, self)
      else (Inr (), self\<lparr>elements := elements self @ [state]\<rparr>))"

subsection \<open>The DNA alphabet\<close>

text \<open>
  A statement of a method body acts on the object and either completes or raises; a body
  is run statement by statement up to the first exception.
\<close>

type_synonym stmt = "DiscreteStateAlphabetSet \<Rightarrow> (error + unit) \<times> DiscreteStateAlphabetSet"

fun run :: "stmt list \<Rightarrow> stmt" where
  "run [] self = (Inr (), self)"
| "run (st # sts) self =
     (case st self of
        (Inl e, self') \<Rightarrow> (Inl e, self')
      | (Inr u, self') \<Rightarrow> run sts self')"

text \<open>
  The two forms of statement in \<^verbatim>\<open>DnaStateAlphabetSet.__init__\<close>: lines 205 to 209 append a
  state built from a symbol alone (the other constructor arguments at their defaults);
  lines 210 to 245 first look the member states up by symbol with \<^verbatim>\<open>get_states\<close>, then
  build an ambiguous state from them and append it.
\<close>

text \<open>
  Modelled from the spec: the identifier of a state that is built without an \<^verbatim>\<open>elem_id\<close>,
  as every state of the DNA alphabet is. It is stored by \<^verbatim>\<open>base.IdTagged\<close>, which is not
  among the sources; the specification assumes of it "a base entity with a unique
  identifier". The identifier is therefore the parameter \<open>eid\<close> of the two statements.
\<close>

definition append_single :: "attr_value \<Rightarrow> string \<Rightarrow> stmt" where
  "append_single eid smb self =
     append self (Element eid None (Some smb) None SINGLE_STATE None)"

definition append_ambiguous :: "attr_value \<Rightarrow> string \<Rightarrow> string list \<Rightarrow> stmt" where
  "append_ambiguous eid smb smbs self =
     (case get_states self None (Some (map Some smbs)) None of
        Inl e \<Rightarrow> (Inl e, self)
      | Inr states \<Rightarrow> append self (Element eid None (Some smb) None AMBIGUOUS_STATE (Some states)))"

text \<open>
  \<^verbatim>\<open>DnaStateAlphabetSet.__init__\<close> (lines 203 to 245), statement by statement. \<open>ident k\<close>
  is the identifier of the state that statement \<open>k\<close> builds, counted from 0.
\<close>

definition DnaStateAlphabetSet ::
  "(nat \<Rightarrow> attr_value) \<Rightarrow> attr_value \<Rightarrow> attr_value \<Rightarrow> error + DiscreteStateAlphabetSet" where
  "DnaStateAlphabetSet ident eid lbl =
     (case run
        [append_single (ident 0) ''A'',
         append_single (ident 1) ''C'',
         append_single (ident 2) ''G'',
         append_single (ident 3) ''T'',
         append_single (ident 4) ''-'',
         append_ambiguous (ident 5) ''?'' [''A'', ''C'', ''G'', ''T'', ''-''],
         append_ambiguous (ident 6) ''N'' [''A'', ''C'', ''G'', ''T''],
         append_ambiguous (ident 7) ''M'' [''A'', ''C''],
         append_ambiguous (ident 8) ''R'' [''A'', ''G''],
         append_ambiguous (ident 9) ''W'' [''A'', ''T''],
         append_ambiguous (ident 10) ''S'' [''C'', ''G''],
         append_ambiguous (ident 11) ''Y'' [''C'', ''T''],
         append_ambiguous (ident 12) ''K'' [''G'', ''T''],
         append_ambiguous (ident 13) ''V'' [''A'', ''C'', ''G''],
         append_ambiguous (ident 14) ''H'' [''A'', ''C'', ''T''],
         append_ambiguous (ident 15) ''D'' [''A'', ''G'', ''T''],
         append_ambiguous (ident 16) ''B'' [''C'', ''G'', ''T'']]
        (DiscreteStateAlphabetSet_init eid lbl)
      of
        (Inl e, self) \<Rightarrow> Inl e
      | (Inr u, self) \<Rightarrow> Inr self)"

text \<open>
  The states that the seventeen statements build, written out in the order of the
  statements: the five single states, then the twelve ambiguous states, each holding the
  single states that \<^verbatim>\<open>get_states\<close> finds for its list of symbols. Lemma \<open>dna_result\<close>
  below proves that a construction that completes yields exactly these.
\<close>

definition dna_elements :: "(nat \<Rightarrow> attr_value) \<Rightarrow> DiscreteStateAlphabetElement list" where
  "dna_elements ident =
     (let A = Element (ident 0) None (Some ''A'') None SINGLE_STATE None;
          C = Element (ident 1) None (Some ''C'') None SINGLE_STATE None;
          G = Element (ident 2) None (Some ''G'') None SINGLE_STATE None;
          T = Element (ident 3) None (Some ''T'') None SINGLE_STATE None;
          gap = Element (ident 4) None (Some ''-'') None SINGLE_STATE None
      in [A, C, G, T, gap,
          Element (ident 5) None (Some ''?'') None AMBIGUOUS_STATE (Some [A, C, G, T, gap]),
          Element (ident 6) None (Some ''N'') None AMBIGUOUS_STATE (Some [A, C, G, T]),
          Element (ident 7) None (Some ''M'') None AMBIGUOUS_STATE (Some [A, C]),
          Element (ident 8) None (Some ''R'') None AMBIGUOUS_STATE (Some [A, G]),
          Element (ident 9) None (Some ''W'') None AMBIGUOUS_STATE (Some [A, T]),
          Element (ident 10) None (Some ''S'') None AMBIGUOUS_STATE (Some [C, G]),
          Element (ident 11) None (Some ''Y'') None AMBIGUOUS_STATE (Some [C, T]),
          Element (ident 12) None (Some ''K'') None AMBIGUOUS_STATE (Some [G, T]),
          Element (ident 13) None (Some ''V'') None AMBIGUOUS_STATE (Some [A, C, G]),
          Element (ident 14) None (Some ''H'') None AMBIGUOUS_STATE (Some [A, C, T]),
          Element (ident 15) None (Some ''D'') None AMBIGUOUS_STATE (Some [A, G, T]),
          Element (ident 16) None (Some ''B'') None AMBIGUOUS_STATE (Some [C, G, T])])"

subsection \<open>Character blocks\<close>

text \<open>
  \<^verbatim>\<open>class Character\<close> (lines 247 to 255) and \<^verbatim>\<open>class CharactersBlock(dict, taxa.TaxaLinked)\<close>
  (lines 258 to 270). The block is a Python \<^verbatim>\<open>dict\<close>, here the map \<open>rows\<close> from taxa to
  rows of states, with the two lists that \<^verbatim>\<open>__init__\<close> creates empty.
\<close>

record Character =
  character_elem_id :: attr_value
  character_label :: attr_value
  state_alphabet_set :: "DiscreteStateAlphabetSet option"

record 'taxon CharactersBlock =
  rows :: "'taxon \<rightharpoonup> DiscreteStateAlphabetElement list"
  state_alphabet_sets :: "DiscreteStateAlphabetSet list"
  characters :: "Character list"

definition CharactersBlock_init :: "'taxon CharactersBlock" where
  "CharactersBlock_init = \<lparr>rows = Map.empty, state_alphabet_sets = [], characters = []\<rparr>"

text \<open>
  The class defines no method besides \<^verbatim>\<open>__init__\<close>: a row is stored and read with the item
  assignment and the item lookup that it inherits from \<^verbatim>\<open>dict\<close>. These are what the
  specification calls \<^verbatim>\<open>setRow\<close> and \<^verbatim>\<open>getRow\<close>. The assignment stores any value under any
  key; the lookup raises \<^verbatim>\<open>KeyError\<close> for a key that is not there.
\<close>

definition setRow ::
  "'taxon CharactersBlock \<Rightarrow> 'taxon \<Rightarrow> DiscreteStateAlphabetElement list \<Rightarrow> error + 'taxon CharactersBlock" where
  "setRow self taxon row = Inr (self\<lparr>rows := (rows self)(taxon \<mapsto> row)\<rparr>)"

definition getRow ::
  "'taxon CharactersBlock \<Rightarrow> 'taxon \<Rightarrow> error + DiscreteStateAlphabetElement list" where
  "getRow self taxon = (case rows self taxon of None \<Rightarrow> Inl KeyError | Some row \<Rightarrow> Inr row)"

section \<open>Properties\<close>

subsection \<open>Resolution to fundamental states\<close>

lemma fold_update_union:
  "fold (\<lambda>state states. states \<union> f state) ms A = A \<union> \<Union> (f ` set ms)"
  by (induction ms arbitrary: A) auto

lemma fundamental_states_unfold:
  "fundamental_states s =
     (case member_states s of
        None \<Rightarrow> {s}
      | Some ms \<Rightarrow> \<Union> (fundamental_states ` set ms))"
  by (cases s) (simp add: fold_update_union split: option.split)

lemma size_member:
  "mem \<in> set ms \<Longrightarrow> size mem < size (Element i l sy t k (Some ms))"
  by (induction ms) auto

text \<open>A fundamental state of \<open>s\<close> is \<open>s\<close> or lies strictly below it.\<close>

lemma fundamental_states_size:
  "t \<in> fundamental_states s \<Longrightarrow> size t \<le> size s"
proof (induction s arbitrary: t rule: fundamental_states.induct)
  case (1 i l sy t m)
  then show ?case by simp
next
  case (2 i l sy t' m ms)
  from "2.prems" obtain mem where mem: "mem \<in> set ms" "t \<in> fundamental_states mem"
    by (auto simp: fold_update_union)
  from "2.IH" [OF mem(1) mem(2)] have "size t \<le> size mem" .
  with size_member [OF mem(1)] show ?case
    by (meson le_less_trans less_imp_le)
qed

lemma composite_not_fundamental:
  assumes "member_states s = Some ms"
  shows "s \<notin> fundamental_states s"
proof
  assume "s \<in> fundamental_states s"
  with assms obtain mem where mem: "mem \<in> set ms" "s \<in> fundamental_states mem"
    by (auto simp: fundamental_states_unfold)
  from fundamental_states_size [OF mem(2)] have "size s \<le> size mem" .
  moreover have "size mem < size s"
    using assms size_member [OF mem(1), of "elem_id s" "label s" "symbol s" "token s" "multistate s"]
    by (cases s) simp
  ultimately show False by simp
qed

lemma truthy_iff: "truthy v \<longleftrightarrow> v \<noteq> None \<and> v \<noteq> Some []"
  by (cases v) auto

text \<open>
  Claim C1, as the code has it. \<^verbatim>\<open>fundamentalStates(s)\<close> is \<open>{s}\<close> when the member-state
  collection of \<open>s\<close> is absent (\<^verbatim>\<open>None\<close>); when it is present, empty or not, it is the union
  of the fundamental states of the members, which for the empty list is the empty set.
  In particular a SINGLE-kind state whose member-state collection is absent resolves to
  exactly \<open>{s}\<close>. Every state of the model has an acyclic member-state graph.
\<close>

theorem C1_fundamental_states:
  "fundamental_states s =
     (case member_states s of
        None \<Rightarrow> {s}
      | Some ms \<Rightarrow> \<Union> (fundamental_states ` set ms))
   \<and> (multistate s = SINGLE_STATE \<and> member_states s = None \<longrightarrow> fundamental_states s = {s})"
proof
  show "fundamental_states s =
     (case member_states s of None \<Rightarrow> {s} | Some ms \<Rightarrow> \<Union> (fundamental_states ` set ms))"
    by (rule fundamental_states_unfold)
  show "multistate s = SINGLE_STATE \<and> member_states s = None \<longrightarrow> fundamental_states s = {s}"
    by (simp add: fundamental_states_unfold)
qed

text \<open>
  The theorem at the single state A, and at the ambiguous state M with the members A and C.
\<close>

theorem C1_fundamental_states_witness:
  "multistate (Element (Some ''a'') None (Some ''A'') None SINGLE_STATE None) = SINGLE_STATE
   \<and> member_states (Element (Some ''a'') None (Some ''A'') None SINGLE_STATE None) = None
   \<and> fundamental_states (Element (Some ''a'') None (Some ''A'') None SINGLE_STATE None)
       = {Element (Some ''a'') None (Some ''A'') None SINGLE_STATE None}
   \<and> fundamental_states
        (Element (Some ''m'') None (Some ''M'') None AMBIGUOUS_STATE
           (Some [Element (Some ''a'') None (Some ''A'') None SINGLE_STATE None,
                  Element (Some ''c'') None (Some ''C'') None SINGLE_STATE None]))
       = {Element (Some ''a'') None (Some ''A'') None SINGLE_STATE None,
          Element (Some ''c'') None (Some ''C'') None SINGLE_STATE None}"
  using
    C1_fundamental_states [of "Element (Some ''a'') None (Some ''A'') None SINGLE_STATE None"]
    C1_fundamental_states [of "Element (Some ''c'') None (Some ''C'') None SINGLE_STATE None"]
    C1_fundamental_states [of "Element (Some ''m'') None (Some ''M'') None AMBIGUOUS_STATE
           (Some [Element (Some ''a'') None (Some ''A'') None SINGLE_STATE None,
                  Element (Some ''c'') None (Some ''C'') None SINGLE_STATE None])"]
  by (simp add: insert_commute)

text \<open>
  Claim C1 as the specification states it fails: a SINGLE-kind state built with an empty
  list of member states has no member states, yet it resolves to the empty set, not to
  the singleton of itself.
\<close>

theorem C1_counterexample:
  "multistate (Element (Some ''a'') None (Some ''A'') None SINGLE_STATE (Some [])) = SINGLE_STATE
   \<and> member_states (Element (Some ''a'') None (Some ''A'') None SINGLE_STATE (Some [])) = Some []
   \<and> fundamental_states (Element (Some ''a'') None (Some ''A'') None SINGLE_STATE (Some [])) = {}
   \<and> fundamental_states (Element (Some ''a'') None (Some ''A'') None SINGLE_STATE (Some []))
       \<noteq> {Element (Some ''a'') None (Some ''A'') None SINGLE_STATE (Some [])}"
  by simp

text \<open>
  Claim C8. The fundamental ids, symbols and tokens of a state are the identifiers,
  symbols and tokens of its fundamental states; the symbols and tokens leave out every
  fundamental state whose symbol or token is absent or the empty string, so that neither
  \<^verbatim>\<open>None\<close> nor the empty string is ever an entry.
\<close>

theorem C8_fundamental_projections:
  "fundamental_ids s = {elem_id t | t. t \<in> fundamental_states s}
   \<and> fundamental_symbols s =
       {symbol t | t. t \<in> fundamental_states s \<and> symbol t \<noteq> None \<and> symbol t \<noteq> Some []}
   \<and> fundamental_tokens s =
       {token t | t. t \<in> fundamental_states s \<and> token t \<noteq> None \<and> token t \<noteq> Some []}
   \<and> None \<notin> fundamental_symbols s \<and> Some [] \<notin> fundamental_symbols s
   \<and> None \<notin> fundamental_tokens s \<and> Some [] \<notin> fundamental_tokens s"
proof -
  have ids: "fundamental_ids s = {elem_id t | t. t \<in> fundamental_states s}"
    by (auto simp: fundamental_ids_def)
  have syms: "fundamental_symbols s =
       {symbol t | t. t \<in> fundamental_states s \<and> symbol t \<noteq> None \<and> symbol t \<noteq> Some []}"
    by (auto simp: fundamental_symbols_def truthy_iff)
  have toks: "fundamental_tokens s =
       {token t | t. t \<in> fundamental_states s \<and> token t \<noteq> None \<and> token t \<noteq> Some []}"
    by (auto simp: fundamental_tokens_def truthy_iff)
  have "None \<notin> fundamental_symbols s" "Some [] \<notin> fundamental_symbols s"
    by (auto simp: fundamental_symbols_def truthy_iff)
  moreover have "None \<notin> fundamental_tokens s" "Some [] \<notin> fundamental_tokens s"
    by (auto simp: fundamental_tokens_def truthy_iff)
  ultimately show ?thesis using ids syms toks by blast
qed

text \<open>
  Claim C10. A state whose member-state collection is present but empty resolves to the
  empty set, and so do its fundamental ids, symbols and tokens. The base case applies only
  when the collection is absent: a state resolves to the singleton of itself exactly when
  its \<^verbatim>\<open>member_states\<close> is \<^verbatim>\<open>None\<close>.
\<close>

theorem C10_empty_member_states:
  "(member_states s = Some [] \<longrightarrow>
      fundamental_states s = {} \<and> fundamental_states s \<noteq> {s}
      \<and> fundamental_ids s = {} \<and> fundamental_symbols s = {} \<and> fundamental_tokens s = {})
   \<and> (fundamental_states s = {s} \<longleftrightarrow> member_states s = None)"
proof
  show "member_states s = Some [] \<longrightarrow>
      fundamental_states s = {} \<and> fundamental_states s \<noteq> {s}
      \<and> fundamental_ids s = {} \<and> fundamental_symbols s = {} \<and> fundamental_tokens s = {}"
    by (simp add: fundamental_states_unfold fundamental_ids_def fundamental_symbols_def
        fundamental_tokens_def)
  show "fundamental_states s = {s} \<longleftrightarrow> member_states s = None"
  proof
    assume single: "fundamental_states s = {s}"
    show "member_states s = None"
    proof (cases "member_states s")
      case None
      then show ?thesis .
    next
      case (Some ms)
      from composite_not_fundamental [OF Some] single show ?thesis by simp
    qed
  next
    assume "member_states s = None"
    then show "fundamental_states s = {s}"
      by (simp add: fundamental_states_unfold)
  qed
qed

theorem C10_empty_member_states_witness:
  "member_states (Element (Some ''e'') None (Some ''E'') (Some ''e'') AMBIGUOUS_STATE (Some [])) = Some []
   \<and> fundamental_states (Element (Some ''e'') None (Some ''E'') (Some ''e'') AMBIGUOUS_STATE (Some [])) = {}
   \<and> fundamental_ids (Element (Some ''e'') None (Some ''E'') (Some ''e'') AMBIGUOUS_STATE (Some [])) = {}
   \<and> fundamental_symbols (Element (Some ''e'') None (Some ''E'') (Some ''e'') AMBIGUOUS_STATE (Some [])) = {}
   \<and> fundamental_tokens (Element (Some ''e'') None (Some ''E'') (Some ''e'') AMBIGUOUS_STATE (Some [])) = {}
   \<and> member_states (Element (Some ''a'') None (Some ''A'') None SINGLE_STATE None) = None
   \<and> fundamental_states (Element (Some ''a'') None (Some ''A'') None SINGLE_STATE None)
       = {Element (Some ''a'') None (Some ''A'') None SINGLE_STATE None}"
  using
    C10_empty_member_states [of "Element (Some ''e'') None (Some ''E'') (Some ''e'') AMBIGUOUS_STATE (Some [])"]
    C10_empty_member_states [of "Element (Some ''a'') None (Some ''A'') None SINGLE_STATE None"]
  by simp

subsection \<open>Lookup\<close>

lemma get_state_loop_find:
  "get_state_loop xs attr val =
     (case find (\<lambda>s. getattr s attr = val) xs of None \<Rightarrow> Inl NotFound | Some s \<Rightarrow> Inr s)"
  by (induction xs) auto


lemma get_state_Inl_iff:
  "get_state self attr val = Inl e \<longleftrightarrow>
     e = NotFound \<and> (\<forall>s\<in>set (elements self). getattr s attr \<noteq> val)"
proof -
  have "get_state self attr val = Inl e \<longleftrightarrow>
          e = NotFound \<and> find (\<lambda>s. getattr s attr = val) (elements self) = None"
    by (auto simp: get_state_def get_state_loop_find split: option.splits)
  then show ?thesis
    by (auto simp: find_None_iff)
qed


lemma get_states_loop_Inl_iff:
  "get_states_loop self attr vals acc = Inl e \<longleftrightarrow>
     e = NotFound \<and> (\<exists>v\<in>set vals. get_state self attr v = Inl NotFound)"
proof (induction vals arbitrary: acc)
  case Nil
  then show ?case by auto
next
  case (Cons v vals)
  show ?case
  proof (cases "get_state self attr v")
    case (Inl e')
    then have "e' = NotFound" by (simp add: get_state_Inl_iff)
    with Inl show ?thesis by auto
  next
    case (Inr s)
    then show ?thesis by (auto simp: Cons.IH)
  qed
qed





subsection \<open>Construction of the DNA alphabet\<close>

lemma result_of_run:
  "(case r of (Inl e, self) \<Rightarrow> Inl e | (Inr u, self) \<Rightarrow> Inr self) = Inr dna \<longleftrightarrow> r = (Inr (), dna)"
  by (auto split: prod.splits sum.splits)

lemma run_append_single:
  "run (append_single e smb # sts) self =
     (if e \<in> elem_id ` set (elements self) then (Inl DuplicateKey, self)
      else run sts (self\<lparr>elements := elements self @ [Element e None (Some smb) None SINGLE_STATE None]\<rparr>))"
  by (simp add: append_single_def append_def)

lemma run_append_ambiguous:
  "run (append_ambiguous e smb smbs # sts) self =
     (case get_states self None (Some (map Some smbs)) None of
        Inl err \<Rightarrow> (Inl err, self)
      | Inr states \<Rightarrow>
          if e \<in> elem_id ` set (elements self) then (Inl DuplicateKey, self)
          else run sts (self\<lparr>elements := elements self @ [Element e None (Some smb) None AMBIGUOUS_STATE (Some states)]\<rparr>))"
  by (simp add: append_ambiguous_def append_def split: sum.splits)

lemma if_raise_eq:
  "((if c then (Inl e, s) else r) = (Inr u, d)) = (\<not> c \<and> r = (Inr u, d))"
  by simp

lemma dna_result:
  assumes "DnaStateAlphabetSet ident eid lbl = Inr dna"
  shows "dna = \<lparr>alphabet_elem_id = eid, alphabet_label = lbl, elements = dna_elements ident\<rparr>"
  using assms unfolding DnaStateAlphabetSet_def result_of_run
  by (simp add: run_append_single run_append_ambiguous if_raise_eq get_states_def get_state_def
      DiscreteStateAlphabetSet_init_def dna_elements_def Let_def del: run.simps(2))

lemma dna_success:
  assumes "distinct (map ident [0..<17])"
  shows "DnaStateAlphabetSet ident eid lbl =
           Inr \<lparr>alphabet_elem_id = eid, alphabet_label = lbl, elements = dna_elements ident\<rparr>"
proof -
  have "[0..<17] = [0, 1, 2, 3, 4, 5, 6, 7, 8, 9, 10, 11, 12, 13, 14, 15, 16::nat]"
    by code_simp
  with assms have "distinct (rev [ident 0, ident 1, ident 2, ident 3, ident 4, ident 5, ident 6,
     ident 7, ident 8, ident 9, ident 10, ident 11, ident 12, ident 13, ident 14, ident 15, ident 16])"
    by (simp only: distinct_rev list.map)
  then have ids: "distinct [ident 16, ident 15, ident 14, ident 13, ident 12, ident 11, ident 10,
     ident 9, ident 8, ident 7, ident 6, ident 5, ident 4, ident 3, ident 2, ident 1, ident 0]"
    by (simp only: rev.simps append.simps)
  show ?thesis
    using ids unfolding DnaStateAlphabetSet_def result_of_run
    by (simp add: run_append_single run_append_ambiguous get_states_def get_state_def if_raise_eq
      DiscreteStateAlphabetSet_init_def dna_elements_def Let_def del: run.simps(2))
qed

lemma fundamental_symbols_None:
  "fundamental_symbols (Element i l sy t m None) = (if truthy sy then {sy} else {})"
  by (auto simp: fundamental_symbols_def)

lemma fundamental_symbols_Some:
  "fundamental_symbols (Element i l sy t m (Some ms)) = \<Union> (fundamental_symbols ` set ms)"
  by (auto simp: fundamental_symbols_def fold_update_union)

lemma dna_fundamental_symbols:
  "map fundamental_symbols (dna_elements ident) =
     [{Some ''A''}, {Some ''C''}, {Some ''G''}, {Some ''T''}, {Some ''-''},
      {Some ''A'', Some ''C'', Some ''G'', Some ''T'', Some ''-''},
      {Some ''A'', Some ''C'', Some ''G'', Some ''T''},
      {Some ''A'', Some ''C''}, {Some ''A'', Some ''G''}, {Some ''A'', Some ''T''},
      {Some ''C'', Some ''G''}, {Some ''C'', Some ''T''}, {Some ''G'', Some ''T''},
      {Some ''A'', Some ''C'', Some ''G''}, {Some ''A'', Some ''C'', Some ''T''},
      {Some ''A'', Some ''G'', Some ''T''}, {Some ''C'', Some ''G'', Some ''T''}]"
  by (simp add: dna_elements_def Let_def fundamental_symbols_None fundamental_symbols_Some insert_commute)

subsection \<open>Lookup by attribute\<close>

lemma example_ident_distinct:
  "distinct (map (\<lambda>k. Some (replicate (Suc k) CHR ''x'')) [0..<17])"
  by code_simp




subsection \<open>Selectors\<close>

text \<open>
  Claim C6, as the code has it. \<^verbatim>\<open>get_states\<close> and \<^verbatim>\<open>match_state\<close> fail with
  InvalidArgument exactly when no selector is supplied. When more than one is supplied,
  neither fails for that reason: the first supplied one in the order ids, symbols, tokens
  is used and the others are ignored.
\<close>

theorem C6_selectors:
  "(get_states self elem_ids symbols tokens = Inl InvalidArgument \<longleftrightarrow>
      elem_ids = None \<and> symbols = None \<and> tokens = None)
   \<and> (match_state self m_elem_ids m_symbols m_tokens = Inl InvalidArgument \<longleftrightarrow>
      m_elem_ids = None \<and> m_symbols = None \<and> m_tokens = None)
   \<and> get_states self (Some vals) symbols tokens = get_states self (Some vals) None None
   \<and> get_states self None (Some vals) tokens = get_states self None (Some vals) None
   \<and> match_state self (Some m_vals) m_symbols m_tokens = match_state self (Some m_vals) None None
   \<and> match_state self None (Some m_vals) m_tokens = match_state self None (Some m_vals) None"
proof -
  have loop: "get_states_loop self a vs [] \<noteq> Inl InvalidArgument" for a vs
    by (simp add: get_states_loop_Inl_iff)
  have g: "get_states self elem_ids symbols tokens = Inl InvalidArgument \<longleftrightarrow>
      elem_ids = None \<and> symbols = None \<and> tokens = None"
    by (simp add: get_states_def loop split: option.splits)
  have m: "match_state self m_elem_ids m_symbols m_tokens = Inl InvalidArgument \<longleftrightarrow>
      m_elem_ids = None \<and> m_symbols = None \<and> m_tokens = None"
    by (simp add: match_state_def split: option.splits)
  have g1: "get_states self (Some vals) symbols tokens = get_states self (Some vals) None None"
    and g2: "get_states self None (Some vals) tokens = get_states self None (Some vals) None"
    by (simp_all add: get_states_def)
  have m1: "match_state self (Some m_vals) m_symbols m_tokens = match_state self (Some m_vals) None None"
    and m2: "match_state self None (Some m_vals) m_tokens = match_state self None (Some m_vals) None"
    by (simp_all add: match_state_def)
  show ?thesis
    by (intro conjI) (fact g m g1 g2 m1 m2)+
qed

text \<open>
  Claim C6 as the specification states it fails: with the two selectors ids and symbols
  both supplied, on the alphabet that holds the single state A, \<^verbatim>\<open>get_states\<close> returns the
  state found by the ids and \<^verbatim>\<open>match_state\<close> returns the state matched by the ids; neither
  raises InvalidArgument.
\<close>

theorem C6_counterexample:
  "get_states
     \<lparr>alphabet_elem_id = None, alphabet_label = None,
       elements = [Element (Some ''a'') None (Some ''A'') None SINGLE_STATE None]\<rparr>
     (Some [Some ''a'']) (Some [Some ''A'']) None
     = Inr [Element (Some ''a'') None (Some ''A'') None SINGLE_STATE None]
   \<and> match_state
     \<lparr>alphabet_elem_id = None, alphabet_label = None,
       elements = [Element (Some ''a'') None (Some ''A'') None SINGLE_STATE None]\<rparr>
     (Some (ValList [Some ''a''])) (Some (ValList [Some ''A''])) None
     = Inr (Some (Element (Some ''a'') None (Some ''A'') None SINGLE_STATE None))"
  by (simp add: get_states_def get_state_def match_state_def fundamental_ids_def)

subsection \<open>Insertion into an alphabet\<close>

text \<open>
  Claim C7. Inserting a state whose identifier is the identifier of a state of the
  alphabet fails with DuplicateKey and leaves the alphabet as it was; inserting a state
  with a fresh identifier succeeds, and the alphabet then holds the new state besides the
  states it held.
\<close>

theorem C7_append:
  "(elem_id state \<in> elem_id ` set (elements self) \<longrightarrow>
      append self state = (Inl DuplicateKey, self))
   \<and> (elem_id state \<notin> elem_id ` set (elements self) \<longrightarrow>
      (\<exists>self'. append self state = (Inr (), self')
         \<and> set (elements self') = insert state (set (elements self))
         \<and> alphabet_elem_id self' = alphabet_elem_id self
         \<and> alphabet_label self' = alphabet_label self))"
  by (simp add: append_def)

text \<open>
  The theorem on the alphabet that holds the state A with the identifier a: a second
  state with the identifier a is refused, a state with the identifier c is accepted.
\<close>

theorem C7_append_witness:
  "elem_id (Element (Some ''a'') None (Some ''X'') None SINGLE_STATE None)
     \<in> elem_id ` set (elements \<lparr>alphabet_elem_id = None, alphabet_label = None,
          elements = [Element (Some ''a'') None (Some ''A'') None SINGLE_STATE None]\<rparr>)
   \<and> append
       \<lparr>alphabet_elem_id = None, alphabet_label = None,
         elements = [Element (Some ''a'') None (Some ''A'') None SINGLE_STATE None]\<rparr>
       (Element (Some ''a'') None (Some ''X'') None SINGLE_STATE None)
     = (Inl DuplicateKey,
        \<lparr>alphabet_elem_id = None, alphabet_label = None,
          elements = [Element (Some ''a'') None (Some ''A'') None SINGLE_STATE None]\<rparr>)
   \<and> elem_id (Element (Some ''c'') None (Some ''C'') None SINGLE_STATE None)
     \<notin> elem_id ` set (elements \<lparr>alphabet_elem_id = None, alphabet_label = None,
          elements = [Element (Some ''a'') None (Some ''A'') None SINGLE_STATE None]\<rparr>)
   \<and> fst (append
       \<lparr>alphabet_elem_id = None, alphabet_label = None,
         elements = [Element (Some ''a'') None (Some ''A'') None SINGLE_STATE None]\<rparr>
       (Element (Some ''c'') None (Some ''C'') None SINGLE_STATE None)) = Inr ()"
proof -
  let ?a = "\<lparr>alphabet_elem_id = None, alphabet_label = None,
         elements = [Element (Some ''a'') None (Some ''A'') None SINGLE_STATE None]\<rparr>"
  let ?x = "Element (Some ''a'') None (Some ''X'') None SINGLE_STATE None"
  let ?c = "Element (Some ''c'') None (Some ''C'') None SINGLE_STATE None"
  have old: "elem_id ?x \<in> elem_id ` set (elements ?a)"
    by simp
  have fresh: "elem_id ?c \<notin> elem_id ` set (elements ?a)"
    by simp
  from C7_append [of ?x ?a] old have dup: "append ?a ?x = (Inl DuplicateKey, ?a)"
    by blast
  from C7_append [of ?c ?a] fresh obtain self' where "append ?a ?c = (Inr (), self')"
    by blast
  then have ok: "fst (append ?a ?c) = Inr ()"
    by simp
  show ?thesis
    by (intro conjI) (fact old dup fresh ok)+
qed

subsection \<open>Rows of a character block\<close>

text \<open>
  Claim C9, as the code has it. Storing a row never fails, whatever states the row holds
  and whatever alphabets the block has registered, and the stored row is then what the
  lookup of the taxon returns; the alphabets and the characters of the block are as before.
\<close>

theorem C9_setRow:
  "\<exists>self'. setRow self taxon row = Inr self'
     \<and> getRow self' taxon = Inr row
     \<and> state_alphabet_sets self' = state_alphabet_sets self
     \<and> characters self' = characters self"
  by (simp add: setRow_def getRow_def)

text \<open>
  Claim C9 as the specification states it fails: a block with no registered alphabet
  stores a row that holds a state, which is then foreign to the block, without an error.
\<close>

theorem C9_counterexample:
  "state_alphabet_sets (CharactersBlock_init :: nat CharactersBlock) = []
   \<and> setRow (CharactersBlock_init :: nat CharactersBlock) 0
        [Element (Some ''a'') None (Some ''A'') None SINGLE_STATE None]
       \<noteq> Inl InvalidArgument
   \<and> getRow
        (projr (setRow (CharactersBlock_init :: nat CharactersBlock) 0
           [Element (Some ''a'') None (Some ''A'') None SINGLE_STATE None])) 0
       = Inr [Element (Some ''a'') None (Some ''A'') None SINGLE_STATE None]"
  by (simp add: setRow_def getRow_def CharactersBlock_init_def)

subsection \<open>The states of the DNA alphabet\<close>

lemma dna_symbols:
  "map symbol (dna_elements ident) =
     map Some [''A'', ''C'', ''G'', ''T'', ''-'', ''?'', ''N'', ''M'', ''R'', ''W'', ''S'', ''Y'', ''K'',
               ''V'', ''H'', ''D'', ''B'']"
  by (simp add: dna_elements_def Let_def)

lemma dna_nth_symbol:
  "dna_elements ident ! 5 \<in> set (dna_elements ident) \<and> symbol (dna_elements ident ! 5) = Some ''?''"
  "dna_elements ident ! 6 \<in> set (dna_elements ident) \<and> symbol (dna_elements ident ! 6) = Some ''N''"
  "dna_elements ident ! 7 \<in> set (dna_elements ident) \<and> symbol (dna_elements ident ! 7) = Some ''M''"
  "dna_elements ident ! 8 \<in> set (dna_elements ident) \<and> symbol (dna_elements ident ! 8) = Some ''R''"
  "dna_elements ident ! 13 \<in> set (dna_elements ident) \<and> symbol (dna_elements ident ! 13) = Some ''V''"
  by (simp_all add: dna_elements_def Let_def)

lemma dna_length: "length (dna_elements ident) = 17"
  by (simp add: dna_elements_def Let_def)

lemma dna_distinct_symbols: "distinct (map symbol (dna_elements ident))"
  by (simp add: dna_symbols)

lemma dna_distinct: "distinct (dna_elements ident)"
  using dna_distinct_symbols by (simp add: distinct_map)

lemma dna_card: "card (set (dna_elements ident)) = 17"
  by (simp add: distinct_card [OF dna_distinct] dna_length)

lemma dna_single:
  "\<forall>s\<in>set (take 5 (dna_elements ident)). multistate s = SINGLE_STATE \<and> member_states s = None"
  by (simp add: dna_elements_def Let_def)

lemma dna_ambiguous:
  "\<forall>s\<in>set (drop 5 (dna_elements ident)). multistate s = AMBIGUOUS_STATE \<and> member_states s \<noteq> None"
  by (simp add: dna_elements_def Let_def)

lemma less_17_cases:
  assumes "i < 17"
  shows "i \<in> {0, 1, 2, 3, 4, 5, 6, 7, 8, 9, 10, 11, 12, 13, 14, 15, 16::nat}"
proof -
  from assms have "i \<in> set [0..<17]"
    by simp
  also have "[0..<17] = [0, 1, 2, 3, 4, 5, 6, 7, 8, 9, 10, 11, 12, 13, 14, 15, 16::nat]"
    by code_simp
  finally show ?thesis
    by simp
qed

lemma dna_members_before:
  assumes "i < length (dna_elements ident)"
    and "member_states (dna_elements ident ! i) = Some ms"
  shows "set ms \<subseteq> set (take i (dna_elements ident))"
proof -
  from assms(1) have "i < 17"
    by (simp add: dna_length)
  then have "i \<in> {0, 1, 2, 3, 4, 5, 6, 7, 8, 9, 10, 11, 12, 13, 14, 15, 16::nat}"
    by (rule less_17_cases)
  then show ?thesis
    using assms(2) by (elim insertE emptyE) (auto simp: dna_elements_def Let_def)
qed


text \<open>
  Claim C4, as the code has it. The construction of the DNA alphabet completes when the
  identifiers of the seventeen states it builds are distinct, and an alphabet it has built
  contains exactly 17 states: in the order of insertion, the SINGLE states A, C, G, T and
  the gap \<^verbatim>\<open>-\<close>, which have no member-state collection, then the AMBIGUOUS states
  ?, N, M, R, W, S, Y, K, V, H, D, B. Each state with member states comes after all of them.
\<close>

theorem C4_dna_alphabet:
  "(distinct (map ident [0..<17]) \<longrightarrow> (\<exists>dna. DnaStateAlphabetSet ident eid lbl = Inr dna))
   \<and> (DnaStateAlphabetSet ident eid lbl = Inr dna \<longrightarrow>
        card (set (elements dna)) = 17
        \<and> length (elements dna) = 17
        \<and> map symbol (elements dna) =
            map Some [''A'', ''C'', ''G'', ''T'', ''-'', ''?'', ''N'', ''M'', ''R'', ''W'', ''S'', ''Y'',
                      ''K'', ''V'', ''H'', ''D'', ''B'']
        \<and> (\<forall>s\<in>set (take 5 (elements dna)). multistate s = SINGLE_STATE \<and> member_states s = None)
        \<and> (\<forall>s\<in>set (drop 5 (elements dna)). multistate s = AMBIGUOUS_STATE \<and> member_states s \<noteq> None)
        \<and> (\<forall>i<length (elements dna). \<forall>ms. member_states (elements dna ! i) = Some ms \<longrightarrow>
              set ms \<subseteq> set (take i (elements dna))))"
proof (intro conjI impI)
  assume "distinct (map ident [0..<17])"
  from dna_success [OF this, of eid lbl] show "\<exists>dna. DnaStateAlphabetSet ident eid lbl = Inr dna"
    by blast
next
  assume "DnaStateAlphabetSet ident eid lbl = Inr dna"
  then have "dna = \<lparr>alphabet_elem_id = eid, alphabet_label = lbl, elements = dna_elements ident\<rparr>"
    by (rule dna_result)
  then have el: "elements dna = dna_elements ident"
    by simp
  show "card (set (elements dna)) = 17"
    unfolding el by (rule dna_card)
  show "length (elements dna) = 17"
    unfolding el by (rule dna_length)
  show "map symbol (elements dna) =
            map Some [''A'', ''C'', ''G'', ''T'', ''-'', ''?'', ''N'', ''M'', ''R'', ''W'', ''S'', ''Y'',
                      ''K'', ''V'', ''H'', ''D'', ''B'']"
    unfolding el by (rule dna_symbols)
  show "\<forall>s\<in>set (take 5 (elements dna)). multistate s = SINGLE_STATE \<and> member_states s = None"
    unfolding el by (rule dna_single)
  show "\<forall>s\<in>set (drop 5 (elements dna)). multistate s = AMBIGUOUS_STATE \<and> member_states s \<noteq> None"
    unfolding el by (rule dna_ambiguous)
  show "\<forall>i<length (elements dna). \<forall>ms. member_states (elements dna ! i) = Some ms \<longrightarrow>
              set ms \<subseteq> set (take i (elements dna))"
    unfolding el using dna_members_before [of _ ident] by blast
qed

text \<open>
  The theorem with the identifiers x, xx, xxx and so on, which are distinct: the
  construction completes, and the alphabet has 17 states.
\<close>

theorem C4_dna_alphabet_witness:
  "distinct (map (\<lambda>k. Some (replicate (Suc k) CHR ''x'')) [0..<17])
   \<and> (\<exists>dna. DnaStateAlphabetSet (\<lambda>k. Some (replicate (Suc k) CHR ''x'')) None None = Inr dna
        \<and> card (set (elements dna)) = 17
        \<and> map symbol (elements dna) =
            map Some [''A'', ''C'', ''G'', ''T'', ''-'', ''?'', ''N'', ''M'', ''R'', ''W'', ''S'', ''Y'',
                      ''K'', ''V'', ''H'', ''D'', ''B''])"
proof -
  let ?ident = "\<lambda>k. Some (replicate (Suc k) CHR ''x'')"
  have ids: "distinct (map ?ident [0..<17])"
    by (rule example_ident_distinct)
  with C4_dna_alphabet [of ?ident None None] obtain dna
    where built: "DnaStateAlphabetSet ?ident None None = Inr dna"
    by blast
  with C4_dna_alphabet [of ?ident None None dna]
  have "card (set (elements dna)) = 17"
    and "map symbol (elements dna) =
            map Some [''A'', ''C'', ''G'', ''T'', ''-'', ''?'', ''N'', ''M'', ''R'', ''W'', ''S'', ''Y'',
                      ''K'', ''V'', ''H'', ''D'', ''B'']"
    by blast+
  with ids built show ?thesis
    by blast
qed

text \<open>
  Claim C4 as the specification states it fails: the alphabet built with the identifiers
  x, xx, xxx and so on has 17 states, not 16.
\<close>

theorem C4_counterexample:
  "DnaStateAlphabetSet (\<lambda>k. Some (replicate (Suc k) CHR ''x'')) None None =
     Inr \<lparr>alphabet_elem_id = None, alphabet_label = None,
          elements = dna_elements (\<lambda>k. Some (replicate (Suc k) CHR ''x''))\<rparr>
   \<and> card (set (dna_elements (\<lambda>k. Some (replicate (Suc k) CHR ''x'')))) = 17
   \<and> card (set (dna_elements (\<lambda>k. Some (replicate (Suc k) CHR ''x'')))) \<noteq> 16"
proof -
  let ?ident = "\<lambda>k. Some (replicate (Suc k) CHR ''x'')"
  have built: "DnaStateAlphabetSet ?ident None None =
     Inr \<lparr>alphabet_elem_id = None, alphabet_label = None, elements = dna_elements ?ident\<rparr>"
    by (rule dna_success [OF example_ident_distinct])
  have seventeen: "card (set (dna_elements ?ident)) = 17"
    by (rule dna_card)
  have not_sixteen: "card (set (dna_elements ?ident)) \<noteq> 16"
    unfolding seventeen by simp
  show ?thesis
    by (intro conjI) (fact built seventeen not_sixteen)+
qed

subsection \<open>Matching on the DNA alphabet\<close>

lemma match_state_loop_unique:
  assumes "s \<in> set xs"
    and "getattr_fundamental s attr = vals"
    and "\<forall>t\<in>set xs. getattr_fundamental t attr = vals \<longrightarrow> t = s"
  shows "match_state_loop xs attr (SetValue vals) = Some s"
  using assms
proof (induction xs)
  case Nil
  then show ?case by simp
next
  case (Cons x xs)
  show ?case
  proof (cases "getattr_fundamental x attr = vals")
    case True
    with Cons.prems(3) have "x = s"
      by simp
    with True show ?thesis
      by simp
  next
    case False
    with Cons.prems(1,2) have "s \<in> set xs"
      by auto
    moreover from Cons.prems(3) have "\<forall>t\<in>set xs. getattr_fundamental t attr = vals \<longrightarrow> t = s"
      by simp
    ultimately have "match_state_loop xs attr (SetValue vals) = Some s"
      using Cons.prems(2) by (intro Cons.IH)
    with False show ?thesis
      by simp
  qed
qed

lemma dna_unique:
  assumes "\<forall>j\<in>{0, 1, 2, 3, 4, 5, 6, 7, 8, 9, 10, 11, 12, 13, 14, 15, 16::nat}.
      map fundamental_symbols (dna_elements ident) ! j = V \<longrightarrow> j = k"
  shows "\<forall>t\<in>set (dna_elements ident). fundamental_symbols t = V \<longrightarrow> t = dna_elements ident ! k"
proof (intro ballI impI)
  fix t
  assume "t \<in> set (dna_elements ident)" and fs: "fundamental_symbols t = V"
  then obtain j where j: "j < 17" "t = dna_elements ident ! j"
    by (auto simp: in_set_conv_nth dna_length)
  from j(1) have "j \<in> {0, 1, 2, 3, 4, 5, 6, 7, 8, 9, 10, 11, 12, 13, 14, 15, 16::nat}"
    by (rule less_17_cases)
  moreover from j fs have "map fundamental_symbols (dna_elements ident) ! j = V"
    by (simp add: dna_length)
  ultimately have "j = k"
    using assms by blast
  with j(2) show "t = dna_elements ident ! k"
    by simp
qed

lemma dna_unique_ACGT:
  "\<forall>t\<in>set (dna_elements ident).
     fundamental_symbols t = {Some ''A'', Some ''C'', Some ''G'', Some ''T''} \<longrightarrow> t = dna_elements ident ! 6"
  by (rule dna_unique) (simp add: dna_fundamental_symbols set_eq_subset)

lemma dna_unique_AC:
  "\<forall>t\<in>set (dna_elements ident).
     fundamental_symbols t = {Some ''A'', Some ''C''} \<longrightarrow> t = dna_elements ident ! 7"
  by (rule dna_unique) (simp add: dna_fundamental_symbols set_eq_subset)

lemma dna_unique_AG:
  "\<forall>t\<in>set (dna_elements ident).
     fundamental_symbols t = {Some ''A'', Some ''G''} \<longrightarrow> t = dna_elements ident ! 8"
  by (rule dna_unique) (simp add: dna_fundamental_symbols set_eq_subset)

lemma dna_unique_ACGT_gap:
  "\<forall>t\<in>set (dna_elements ident).
     fundamental_symbols t = {Some ''A'', Some ''C'', Some ''G'', Some ''T'', Some ''-''} \<longrightarrow> t = dna_elements ident ! 5"
  by (rule dna_unique) (simp add: dna_fundamental_symbols set_eq_subset)


lemma dna_nth_fundamental_symbols:
  "fundamental_symbols (dna_elements ident ! 5) = {Some ''A'', Some ''C'', Some ''G'', Some ''T'', Some ''-''}"
  "fundamental_symbols (dna_elements ident ! 6) = {Some ''A'', Some ''C'', Some ''G'', Some ''T''}"
  "fundamental_symbols (dna_elements ident ! 7) = {Some ''A'', Some ''C''}"
  "fundamental_symbols (dna_elements ident ! 8) = {Some ''A'', Some ''G''}"
  "fundamental_symbols (dna_elements ident ! 13) = {Some ''A'', Some ''C'', Some ''G''}"
proof -
  have nth: "fundamental_symbols (dna_elements ident ! j)
      = map fundamental_symbols (dna_elements ident) ! j" if "j < 17" for j
    using that by (simp add: dna_length)
  show
    "fundamental_symbols (dna_elements ident ! 5) = {Some ''A'', Some ''C'', Some ''G'', Some ''T'', Some ''-''}"
    "fundamental_symbols (dna_elements ident ! 6) = {Some ''A'', Some ''C'', Some ''G'', Some ''T''}"
    "fundamental_symbols (dna_elements ident ! 7) = {Some ''A'', Some ''C''}"
    "fundamental_symbols (dna_elements ident ! 8) = {Some ''A'', Some ''G''}"
    "fundamental_symbols (dna_elements ident ! 13) = {Some ''A'', Some ''C'', Some ''G''}"
    by (simp_all add: nth dna_fundamental_symbols)
qed

text \<open>
  A match by symbols on the states of the DNA alphabet, in whatever order the iteration
  visits them.
\<close>

lemma dna_match_any_order:
  assumes "set (elements self) = set (dna_elements ident)"
    and "converted vals = SetValue V"
    and "k < 17"
    and "fundamental_symbols (dna_elements ident ! k) = V"
    and "\<forall>t\<in>set (dna_elements ident). fundamental_symbols t = V \<longrightarrow> t = dna_elements ident ! k"
  shows "match_state self None (Some vals) None = Inr (Some (dna_elements ident ! k))"
proof -
  from assms(3) have "dna_elements ident ! k \<in> set (dna_elements ident)"
    by (simp add: dna_length)
  with assms(1) have "dna_elements ident ! k \<in> set (elements self)"
    by simp
  moreover have "getattr_fundamental (dna_elements ident ! k) ATTR_fundamental_symbols = V"
    using assms(4) by simp
  moreover have "\<forall>t\<in>set (elements self).
      getattr_fundamental t ATTR_fundamental_symbols = V \<longrightarrow> t = dna_elements ident ! k"
    using assms(1,5) by simp
  ultimately have "match_state_loop (elements self) ATTR_fundamental_symbols (SetValue V)
      = Some (dna_elements ident ! k)"
    by (rule match_state_loop_unique)
  then show ?thesis
    by (simp add: match_state_def assms(2))
qed

lemma converted_AG: "converted (ValStr ''AG'') = SetValue {Some ''A'', Some ''G''}"
  by simp

lemma converted_ACGT_gap:
  "converted (ValStr ''ACGT-'') = SetValue {Some ''A'', Some ''C'', Some ''G'', Some ''T'', Some ''-''}"
  by simp


text \<open>
  Claim C3. On a DNA alphabet that the constructor has built, in whatever order the
  iteration visits its states, \<^verbatim>\<open>match_state\<close> returns for the symbols \<open>{A, C, G, T}\<close> the
  state of the alphabet with the symbol N, for \<open>{A, C}\<close> the state with the symbol M, for
  the string \<^verbatim>\<open>"AG"\<close>, taken character by character, the state with the symbol R, and for
  the string \<^verbatim>\<open>"ACGT-"\<close> the state with the symbol \<^verbatim>\<open>?\<close>.
\<close>

theorem C3_dna_match_state:
  assumes "DnaStateAlphabetSet ident eid lbl = Inr dna"
    and "set (elements self) = set (elements dna)"
  shows
    "(\<exists>s\<in>set (elements dna). symbol s = Some ''N'' \<and>
        match_state self None (Some (ValSet {Some ''A'', Some ''C'', Some ''G'', Some ''T''})) None
          = Inr (Some s))
     \<and> (\<exists>s\<in>set (elements dna). symbol s = Some ''M'' \<and>
        match_state self None (Some (ValSet {Some ''A'', Some ''C''})) None = Inr (Some s))
     \<and> (\<exists>s\<in>set (elements dna). symbol s = Some ''R'' \<and>
        match_state self None (Some (ValStr ''AG'')) None = Inr (Some s))
     \<and> (\<exists>s\<in>set (elements dna). symbol s = Some ''?'' \<and>
        match_state self None (Some (ValStr ''ACGT-'')) None = Inr (Some s))"
proof -
  have "dna = \<lparr>alphabet_elem_id = eid, alphabet_label = lbl, elements = dna_elements ident\<rparr>"
    using assms(1) by (rule dna_result)
  then have el: "elements dna = dna_elements ident"
    by simp
  with assms(2) have same: "set (elements self) = set (dna_elements ident)"
    by simp
  have n: "match_state self None (Some (ValSet {Some ''A'', Some ''C'', Some ''G'', Some ''T''})) None
      = Inr (Some (dna_elements ident ! 6))"
    by (rule dna_match_any_order [OF same converted.simps(3) _ dna_nth_fundamental_symbols(2) dna_unique_ACGT]) simp
  have m: "match_state self None (Some (ValSet {Some ''A'', Some ''C''})) None
      = Inr (Some (dna_elements ident ! 7))"
    by (rule dna_match_any_order [OF same converted.simps(3) _ dna_nth_fundamental_symbols(3) dna_unique_AC]) simp
  have r: "match_state self None (Some (ValStr ''AG'')) None = Inr (Some (dna_elements ident ! 8))"
    by (rule dna_match_any_order [OF same converted_AG _ dna_nth_fundamental_symbols(4) dna_unique_AG]) simp
  have q: "match_state self None (Some (ValStr ''ACGT-'')) None = Inr (Some (dna_elements ident ! 5))"
    by (rule dna_match_any_order [OF same converted_ACGT_gap _ dna_nth_fundamental_symbols(1) dna_unique_ACGT_gap]) simp
  show ?thesis
    unfolding el n m r q
    by (intro conjI bexI [of _ "dna_elements ident ! 6"] bexI [of _ "dna_elements ident ! 7"]
        bexI [of _ "dna_elements ident ! 8"] bexI [of _ "dna_elements ident ! 5"])
      (simp_all add: dna_nth_symbol)
qed

text \<open>
  The theorem on the DNA alphabet built with the identifiers x, xx, xxx and so on, whose
  construction completes.
\<close>

theorem C3_dna_match_state_witness:
  "\<exists>dna. DnaStateAlphabetSet (\<lambda>k. Some (replicate (Suc k) CHR ''x'')) None None = Inr dna
     \<and> (\<exists>s\<in>set (elements dna). symbol s = Some ''N'' \<and>
        match_state dna None (Some (ValSet {Some ''A'', Some ''C'', Some ''G'', Some ''T''})) None
          = Inr (Some s))
     \<and> (\<exists>s\<in>set (elements dna). symbol s = Some ''M'' \<and>
        match_state dna None (Some (ValSet {Some ''A'', Some ''C''})) None = Inr (Some s))
     \<and> (\<exists>s\<in>set (elements dna). symbol s = Some ''R'' \<and>
        match_state dna None (Some (ValStr ''AG'')) None = Inr (Some s))
     \<and> (\<exists>s\<in>set (elements dna). symbol s = Some ''?'' \<and>
        match_state dna None (Some (ValStr ''ACGT-'')) None = Inr (Some s))"
proof -
  let ?ident = "\<lambda>k. Some (replicate (Suc k) CHR ''x'')"
  let ?dna = "\<lparr>alphabet_elem_id = None, alphabet_label = None, elements = dna_elements ?ident\<rparr>"
  have built: "DnaStateAlphabetSet ?ident None None = Inr ?dna"
    by (rule dna_success [OF example_ident_distinct])
  from built C3_dna_match_state [OF built refl] show ?thesis
    by (rule exI [of _ ?dna, OF conjI])
qed

subsection \<open>Matching by fundamental sets\<close>






end
